theory Spec2Isabelle
  imports Main "HOL-Library.Sublist" "HOL-Library.Word"
begin

section \<open>Husqvarna Automower API client: the model\<close>

text \<open>
  A shallow embedding of \<^verbatim>\<open>Husqvarna.py\<close>. The client object becomes a record that every
  operation takes and returns; the HTTP library, the wall clock and the Python run time
  are an explicit environment:
  \<^item> one HTTP attempt either yields a response or raises an \<^verbatim>\<open>httpx.RequestError\<close>
    (\<^verbatim>\<open>TimeoutException\<close> and \<^verbatim>\<open>ConnectError\<close> are subclasses of it);
  \<^item> \<^verbatim>\<open>response.json()\<close> either yields the decoded value or raises a JSON decode
    error, the class that the two handlers of the source name;
  \<^item> \<^verbatim>\<open>datetime.now()\<close> yields the next reading of the clock;
  \<^item> the text that Python produces for a float, a list, a dict or an exception inside an
    f-string is a parameter.
  The session headers and the log sink are left out: no return value and no field of the
  client depends on them. The arguments of a \<^verbatim>\<open>log(...)\<close> call are still evaluated
  where they can raise.
\<close>

subsection \<open>Python values\<close>

text \<open>A float is kept as its 64-bit pattern; a string is a list of characters.\<close>

type_synonym pyfloat = "64 word"

datatype pyval =
    PyNone
  | PyBool bool
  | PyInt int
  | PyFloat pyfloat
  | PyStr string
  | PyList "pyval list"
  | PyDict "(string \<times> pyval) list"

type_synonym pydict = "(string \<times> pyval) list"

datatype exc_class = AttributeError | TypeError | KeyError | IndexError | OverflowError

text \<open>The operation that failed, in the order: \<^verbatim>\<open>k in v\<close>, \<^verbatim>\<open>v[k]\<close>, \<^verbatim>\<open>v[0]\<close>,
  \<^verbatim>\<open>v[-20:]\<close>, \<^verbatim>\<open>v.get\<close>, \<^verbatim>\<open>for x in v\<close>, hashing \<^verbatim>\<open>v\<close> as a dict key,
  \<^verbatim>\<open>timedelta(seconds=v)\<close>, \<^verbatim>\<open>datetime + timedelta\<close>.\<close>

datatype py_op = OpIn | OpItem | OpFirst | OpSlice | OpGet | OpIter | OpHash | OpTimedelta | OpDateAdd

text \<open>An exception: its class, the operation that raised it and the operand.\<close>

datatype py_exc = Exc exc_class py_op pyval

subsection \<open>HTTP requests and responses\<close>

datatype HttpMethod = POST | GET

record request =
  req_method :: HttpMethod
  req_url :: string
  req_json :: pyval
  req_data :: pyval

text \<open>\<^verbatim>\<open>json_body\<close> is the outcome of \<^verbatim>\<open>response.json()\<close>: \<open>Inl\<close> the text of the
  decode error, \<open>Inr\<close> the decoded value; \<open>resp_text\<close> is \<^verbatim>\<open>response.text\<close>.\<close>

record response =
  status_code :: int
  json_body :: "string + pyval"
  resp_text :: string

datatype attempt = Responded response | RequestError string

subsection \<open>The environment\<close>

text \<open>
  \<^item> \<open>respond n req\<close>: what the network does with request \<open>req\<close> when \<open>n\<close> requests
    were sent before it;
  \<^item> \<open>now_at n\<close>: the \<open>n\<close>-th reading of \<^verbatim>\<open>datetime.now()\<close>, in microseconds since
    0001-01-01 00:00:00;
  \<^item> \<open>repr_val\<close>: Python's \<^verbatim>\<open>repr\<close> of a float, a list or a dict;
  \<^item> \<open>str_exc\<close>: Python's \<^verbatim>\<open>str(e)\<close> of an exception;
  \<^item> \<open>float_int f\<close>: the integer that the float equals, when there is one;
  \<^item> \<open>float_timedelta f\<close>: \<^verbatim>\<open>timedelta(seconds=f)\<close> in microseconds, or the exception
    it raises.
\<close>

record env =
  respond :: "nat \<Rightarrow> request \<Rightarrow> attempt"
  now_at :: "nat \<Rightarrow> int"
  repr_val :: "pyval \<Rightarrow> string"
  str_exc :: "py_exc \<Rightarrow> string"
  float_int :: "pyfloat \<Rightarrow> int option"
  float_timedelta :: "pyfloat \<Rightarrow> py_exc + int"

subsection \<open>Python primitives\<close>

text \<open>\<^verbatim>\<open>str(n)\<close> for an integer: its decimal digits, after a minus sign when it is
  negative.\<close>

definition digit :: "nat \<Rightarrow> char" where
  "digit d = ''0123456789'' ! d"

fun decimal :: "nat \<Rightarrow> string" where
  "decimal n = (if n < 10 then [digit n] else decimal (n div 10) @ [digit (n mod 10)])"

declare decimal.simps [simp del]

definition str_int :: "int \<Rightarrow> string" where
  "str_int i = (if 0 \<le> i then decimal (nat i) else CHR ''-'' # decimal (nat (- i)))"

text \<open>\<^verbatim>\<open>f"{v}"\<close>, that is \<^verbatim>\<open>str(v)\<close>.\<close>

definition py_str :: "env \<Rightarrow> pyval \<Rightarrow> string" where
  "py_str E v =
     (case v of
        PyStr s \<Rightarrow> s
      | PyNone \<Rightarrow> ''None''
      | PyBool b \<Rightarrow> (if b then ''True'' else ''False'')
      | PyInt n \<Rightarrow> str_int n
      | _ \<Rightarrow> repr_val E v)"

text \<open>\<^verbatim>\<open>bool(v)\<close>: the floats \<open>+0.0\<close> and \<open>-0.0\<close> are false.\<close>

definition truthy :: "pyval \<Rightarrow> bool" where
  "truthy v =
     (case v of
        PyNone \<Rightarrow> False
      | PyBool b \<Rightarrow> b
      | PyInt n \<Rightarrow> n \<noteq> 0
      | PyFloat f \<Rightarrow> f \<noteq> 0 \<and> f \<noteq> 0x8000000000000000
      | PyStr s \<Rightarrow> s \<noteq> []
      | PyList xs \<Rightarrow> xs \<noteq> []
      | PyDict d \<Rightarrow> d \<noteq> [])"

text \<open>\<^verbatim>\<open>d.get(k)\<close> on a dict.\<close>

definition dict_get :: "pydict \<Rightarrow> string \<Rightarrow> pyval" where
  "dict_get d k = (case map_of d k of None \<Rightarrow> PyNone | Some v \<Rightarrow> v)"

text \<open>\<^verbatim>\<open>d[k] = v\<close> on a dict: an existing key keeps its place, a new one goes last.\<close>

fun dict_set :: "pydict \<Rightarrow> string \<Rightarrow> pyval \<Rightarrow> pydict" where
  "dict_set [] k v = [(k, v)]"
| "dict_set ((k', v') # d) k v = (if k' = k then (k, v) # d else (k', v') # dict_set d k v)"

text \<open>\<^verbatim>\<open>v.get(k, default)\<close> on any value.\<close>

definition py_get :: "pyval \<Rightarrow> string \<Rightarrow> pyval \<Rightarrow> py_exc + pyval" where
  "py_get v k dflt =
     (case v of
        PyDict d \<Rightarrow> Inr (case map_of d k of None \<Rightarrow> dflt | Some x \<Rightarrow> x)
      | _ \<Rightarrow> Inl (Exc AttributeError OpGet v))"

text \<open>\<^verbatim>\<open>k in v\<close> for a string \<open>k\<close>: a key of a dict, an element of a list, a substring
  of a string.\<close>

definition py_in :: "string \<Rightarrow> pyval \<Rightarrow> py_exc + bool" where
  "py_in k v =
     (case v of
        PyDict d \<Rightarrow> Inr (map_of d k \<noteq> None)
      | PyList xs \<Rightarrow> Inr (PyStr k \<in> set xs)
      | PyStr s \<Rightarrow> Inr (sublist k s)
      | _ \<Rightarrow> Inl (Exc TypeError OpIn v))"

text \<open>\<^verbatim>\<open>v[k]\<close> for a string \<open>k\<close>.\<close>

definition py_item :: "pyval \<Rightarrow> string \<Rightarrow> py_exc + pyval" where
  "py_item v k =
     (case v of
        PyDict d \<Rightarrow> (case map_of d k of None \<Rightarrow> Inl (Exc KeyError OpItem (PyStr k)) | Some x \<Rightarrow> Inr x)
      | _ \<Rightarrow> Inl (Exc TypeError OpItem v))"

text \<open>\<^verbatim>\<open>v[0]\<close>.\<close>

definition py_first :: "pyval \<Rightarrow> py_exc + pyval" where
  "py_first v =
     (case v of
        PyList xs \<Rightarrow> (case xs of [] \<Rightarrow> Inl (Exc IndexError OpFirst v) | x # _ \<Rightarrow> Inr x)
      | PyStr s \<Rightarrow> (case s of [] \<Rightarrow> Inl (Exc IndexError OpFirst v) | c # _ \<Rightarrow> Inr (PyStr [c]))
      | PyDict d \<Rightarrow> Inl (Exc KeyError OpFirst (PyInt 0))
      | _ \<Rightarrow> Inl (Exc TypeError OpFirst v))"

subsection \<open>Constants\<close>

definition TOKEN_REQUEST :: string where
  "TOKEN_REQUEST = ''https://api.authentication.husqvarnagroup.dev/v1/oauth2/token''"

definition BASE_API :: string where
  "BASE_API = ''https://api.amc.husqvarna.dev/v1/''"

definition MOWERS :: string where
  "MOWERS = BASE_API @ ''mowers''"

definition RETRY_DELAY :: int where
  "RETRY_DELAY = 2"

definition TOKEN_REFRESH_MARGIN :: int where
  "TOKEN_REFRESH_MARGIN = 600"



datatype MowerState = OFF | OK | ERROR | WARNING

fun MowerState_value :: "MowerState \<Rightarrow> string" where
  "MowerState_value OFF = ''OFF''"
| "MowerState_value OK = ''OK''"
| "MowerState_value ERROR = ''ERROR''"
| "MowerState_value WARNING = ''WARNING''"

subsection \<open>The error code table\<close>




subsection \<open>The client\<close>

text \<open>\<^verbatim>\<open>ApiState\<close>. A \<^verbatim>\<open>datetime\<close> is a number of microseconds since 0001-01-01 00:00:00;
  \<^verbatim>\<open>access_token\<close> is \<open>PyNone\<close> or the decoded token response.\<close>

record ApiState =
  access_token :: pyval
  access_token_expiration :: int
  timestamp_last_update_mower_list :: int
  error :: "string option"
  api_limit_reached :: bool
  authenticated :: bool

text \<open>What the client did to the outside: each request with its outcome and each
  \<^verbatim>\<open>time.sleep\<close> with its seconds, oldest first; \<open>sent\<close> counts the requests and
  \<open>clock\<close> the readings of \<^verbatim>\<open>datetime.now()\<close>.\<close>

datatype event = Sent request attempt | Slept int

record world =
  sent :: nat
  clock :: nat
  trace :: "event list"

record Husqvarna =
  client_id :: string
  client_secret :: string
  mowers :: "pydict list"
  state :: ApiState
  io :: world

subsection \<open>Queries on the stored mower list\<close>

definition are_all_mowers_off :: "Husqvarna \<Rightarrow> bool" where
  "are_all_mowers_off self =
     list_all (\<lambda>mower. dict_get mower ''state'' = PyStr (MowerState_value OFF)) (mowers self)"

subsection \<open>Clock, network and sleep\<close>

text \<open>\<^verbatim>\<open>datetime.now()\<close>.\<close>

definition now :: "env \<Rightarrow> Husqvarna \<Rightarrow> int \<times> Husqvarna" where
  "now E self =
     (now_at E (clock (io self)), self\<lparr>io := (io self)\<lparr>clock := Suc (clock (io self))\<rparr>\<rparr>)"

text \<open>\<^verbatim>\<open>self.session.get\<close> or \<^verbatim>\<open>self.session.post\<close>: one attempt.\<close>

definition send :: "env \<Rightarrow> request \<Rightarrow> Husqvarna \<Rightarrow> attempt \<times> Husqvarna" where
  "send E req self =
     (let a = respond E (sent (io self)) req
      in (a, self\<lparr>io := (io self)\<lparr>sent := Suc (sent (io self)),
                                   trace := trace (io self) @ [Sent req a]\<rparr>\<rparr>))"

text \<open>\<^verbatim>\<open>time.sleep\<close>.\<close>

definition sleep :: "int \<Rightarrow> Husqvarna \<Rightarrow> Husqvarna" where
  "sleep secs self = self\<lparr>io := (io self)\<lparr>trace := trace (io self) @ [Slept secs]\<rparr>\<rparr>"

subsection \<open>Error analysis\<close>

text \<open>The start of every message of \<^verbatim>\<open>_analyze_http_error\<close>:
  \<^verbatim>\<open>({mower_name or 'Unknown'} - {response.status_code})\<close> and a blank.\<close>

definition error_context :: "env \<Rightarrow> pyval \<Rightarrow> response \<Rightarrow> string" where
  "error_context E mower_name response =
     ''('' @ py_str E (if truthy mower_name then mower_name else PyStr ''Unknown'') @ '' - '' @
     str_int (status_code response) @ '') ''"

text \<open>The body of the \<^verbatim>\<open>try\<close> of \<^verbatim>\<open>_analyze_http_error\<close>, once the response is decoded
  to \<open>error_info\<close>.\<close>

definition analyze_error_info :: "env \<Rightarrow> response \<Rightarrow> string \<Rightarrow> pyval \<Rightarrow> pyval \<Rightarrow> py_exc + string" where
  "analyze_error_info E response url mower_name error_info =
     (case py_in ''errors'' error_info of
        Inl e \<Rightarrow> Inl e
      | Inr True \<Rightarrow>
          (case py_item error_info ''errors'' of
             Inl e \<Rightarrow> Inl e
           | Inr errors \<Rightarrow>
               (case (if truthy errors then py_first errors else Inr (PyDict [])) of
                  Inl e \<Rightarrow> Inl e
                | Inr error_detail \<Rightarrow>
                    (case py_get error_detail ''title'' (PyStr ''Unknown Error'') of
                       Inl e \<Rightarrow> Inl e
                     | Inr title \<Rightarrow>
                         (case py_get error_detail ''detail'' (PyStr ''No detail'') of
                            Inl e \<Rightarrow> Inl e
                          | Inr detail \<Rightarrow>
                              Inr (error_context E mower_name response @ py_str E title @ '': '' @
                                   py_str E detail @ '' (url: '' @ url @ '')'')))))
      | Inr False \<Rightarrow>
          (case py_in ''message'' error_info of
             Inl e \<Rightarrow> Inl e
           | Inr True \<Rightarrow>
               (case py_get error_info ''message'' (PyStr ''No message'') of
                  Inl e \<Rightarrow> Inl e
                | Inr message \<Rightarrow>
                    Inr (error_context E mower_name response @ py_str E message @
                         '' (url: '' @ url @ '')''))
           | Inr False \<Rightarrow>
               Inr (error_context E mower_name response @
                    ''Uncaptured error returned by Husqvarna API (url: '' @ url @ '')'')))"

text \<open>The message of \<^verbatim>\<open>_analyze_http_error\<close>: its \<^verbatim>\<open>try\<close> with the two handlers, one for a
  decode error and one for any other exception of the analysis.\<close>

definition error_message :: "env \<Rightarrow> response \<Rightarrow> string \<Rightarrow> pyval \<Rightarrow> string" where
  "error_message E response url mower_name =
     (case json_body response of
        Inl decode_error \<Rightarrow>
          error_context E mower_name response @
          ''Uncaptured error returned by Husqvarna API (url: '' @ url @ '', response: '' @
          resp_text response @ '') - JSON decode error''
      | Inr error_info \<Rightarrow>
          (case analyze_error_info E response url mower_name error_info of
             Inr msg \<Rightarrow> msg
           | Inl e \<Rightarrow>
               error_context E mower_name response @
               ''Error analyzing API response (url: '' @ url @ '', response: '' @
               resp_text response @ ''): '' @ str_exc E e))"

text \<open>\<^verbatim>\<open>_analyze_http_error\<close>: it sets the rate-limit flag, then builds the message.\<close>

definition analyze_http_error :: "env \<Rightarrow> response \<Rightarrow> string \<Rightarrow> pyval \<Rightarrow> Husqvarna \<Rightarrow> string \<times> Husqvarna" where
  "analyze_http_error E response url mower_name self =
     (error_message E response url mower_name,
      self\<lparr>state := (state self)\<lparr>api_limit_reached := (status_code response = 429)\<rparr>\<rparr>)"

subsection \<open>Requests with retry\<close>

text \<open>The request that one attempt sends: a \<^verbatim>\<open>GET\<close> carries neither body.\<close>

definition make_request :: "HttpMethod \<Rightarrow> string \<Rightarrow> pyval \<Rightarrow> pyval \<Rightarrow> request" where
  "make_request method url json_post_data post_data =
     (if method = GET
      then \<lparr>req_method = GET, req_url = url, req_json = PyNone, req_data = PyNone\<rparr>
      else \<lparr>req_method = method, req_url = url, req_json = json_post_data, req_data = post_data\<rparr>)"

text \<open>The last statement of the loop body: \<^verbatim>\<open>if retry_counter < 3 and not execution_status:
  time.sleep(ApiConfig.RETRY_DELAY * (retry_counter + 1))\<close>.\<close>

definition wait_before_retry :: "nat \<Rightarrow> bool \<Rightarrow> Husqvarna \<Rightarrow> Husqvarna" where
  "wait_before_retry retry_counter execution_status self =
     (if retry_counter < 3 \<and> \<not> execution_status
      then sleep (RETRY_DELAY * (int retry_counter + 1)) self else self)"

definition set_error :: "string option \<Rightarrow> Husqvarna \<Rightarrow> Husqvarna" where
  "set_error e self = self\<lparr>state := (state self)\<lparr>error := e\<rparr>\<rparr>"

text \<open>The message of the handler for a failed attempt:
  \<^verbatim>\<open>Retry {retry_counter} - Connection error to url {url} with error "{e}".\<close> and a
  newline.\<close>

definition connection_error :: "nat \<Rightarrow> string \<Rightarrow> string \<Rightarrow> string" where
  "connection_error retry_counter url e =
     ''Retry '' @ decimal retry_counter @ '' - Connection error to url '' @ url @
     '' with error '' @ [CHR 0x22] @ e @ [CHR 0x22] @ ''.'' @ [CHR 0x0A]"

text \<open>The message for a status that no branch handles.\<close>

definition unhandled_status :: "int \<Rightarrow> string" where
  "unhandled_status status = ''HTTP error ('' @ str_int status @ '') not specifically handled.''"

text \<open>The \<^verbatim>\<open>while retry_counter < 3\<close> loop of \<^verbatim>\<open>_http_with_retry\<close>, from the loop
  variables \<open>retry_counter\<close> and \<open>response\<close>; it returns \<open>execution_status\<close>, the last
  response and the client. A \<^verbatim>\<open>break\<close> is a branch that returns.\<close>

function http_loop ::
  "env \<Rightarrow> request \<Rightarrow> pyval \<Rightarrow> nat \<Rightarrow> response option \<Rightarrow> Husqvarna \<Rightarrow> bool \<times> response option \<times> Husqvarna" where
  "http_loop E req mower_name retry_counter response self =
     (if retry_counter < 3 then
        (case send E req self of
           (Responded r, self1) \<Rightarrow>
             (if 200 \<le> status_code r \<and> status_code r < 300 then
                (True, Some r,
                 self1\<lparr>state := (state self1)\<lparr>error := None, api_limit_reached := False\<rparr>\<rparr>)
              else if status_code r = 403 then
                (if retry_counter + 1 \<ge> 3 then
                   (case analyze_http_error E r (req_url req) mower_name self1 of
                      (msg, self2) \<Rightarrow> (False, Some r, set_error (Some msg) self2))
                 else http_loop E req mower_name (retry_counter + 1) (Some r)
                        (wait_before_retry (retry_counter + 1) False self1))
              else if 400 \<le> status_code r \<and> status_code r < 500 then
                (case analyze_http_error E r (req_url req) mower_name self1 of
                   (msg, self2) \<Rightarrow> (False, Some r, set_error (Some msg) self2))
              else if 500 \<le> status_code r \<and> status_code r < 600 then
                (if retry_counter + 1 \<ge> 3 then
                   (case analyze_http_error E r (req_url req) mower_name self1 of
                      (msg, self2) \<Rightarrow> (False, Some r, set_error (Some msg) self2))
                 else http_loop E req mower_name (retry_counter + 1) (Some r)
                        (wait_before_retry (retry_counter + 1) False self1))
              else
                (False, Some r,
                 set_error (Some (unhandled_status (status_code r))) self1))
         | (RequestError e, self1) \<Rightarrow>
             (let self2 = set_error (Some (connection_error retry_counter (req_url req) e)) self1
              in if retry_counter + 1 \<ge> 3 then (False, response, self2)
                 else http_loop E req mower_name (retry_counter + 1) response
                        (wait_before_retry (retry_counter + 1) False self2)))
      else (False, response, self))"
  by pat_completeness auto
termination
  by (relation "measure (\<lambda>(E, req, mower_name, retry_counter, response, self). 3 - retry_counter)") auto

declare http_loop.simps [simp del]

text \<open>\<^verbatim>\<open>_http_with_retry\<close>. The result \<open>PyNone\<close> is Python's \<open>None\<close>.\<close>

definition http_with_retry ::
  "env \<Rightarrow> HttpMethod \<Rightarrow> string \<Rightarrow> pyval \<Rightarrow> pyval \<Rightarrow> pyval \<Rightarrow> Husqvarna \<Rightarrow> pyval \<times> Husqvarna" where
  "http_with_retry E method url json_post_data post_data mower_name self =
     (case http_loop E (make_request method url json_post_data post_data) mower_name 0 None
             (set_error (Some '''') self) of
        (execution_status, response, self1) \<Rightarrow>
          (if execution_status then
             (case response of
                None \<Rightarrow> (PyNone, self1)
              | Some r \<Rightarrow>
                  (case json_body r of
                     Inr body \<Rightarrow> (body, self1)
                   | Inl e \<Rightarrow> (PyNone, set_error (Some (''Error parsing JSON response: '' @ e)) self1)))
           else (PyNone, self1)))"

subsection \<open>Dates and durations\<close>

text \<open>The largest \<^verbatim>\<open>datetime\<close>, 9999-12-31 23:59:59.999999, and \<^verbatim>\<open>datetime(2000, 1, 1)\<close>.\<close>

definition DATETIME_MAX :: int where
  "DATETIME_MAX = 3652059 * 86400 * 1000000 - 1"

definition DATETIME_2000 :: int where
  "DATETIME_2000 = 730119 * 86400 * 1000000"

text \<open>\<^verbatim>\<open>timedelta(seconds=v)\<close> in microseconds: more than 999999999 days overflow, a bool
  counts as 0 or 1, anything but a number is a type error.\<close>

definition timedelta_seconds :: "env \<Rightarrow> pyval \<Rightarrow> py_exc + int" where
  "timedelta_seconds E v =
     (case v of
        PyInt n \<Rightarrow>
          (if \<bar>n div 86400\<bar> \<le> 999999999 then Inr (n * 1000000)
           else Inl (Exc OverflowError OpTimedelta v))
      | PyBool b \<Rightarrow> Inr (if b then 1000000 else 0)
      | PyFloat f \<Rightarrow> float_timedelta E f
      | _ \<Rightarrow> Inl (Exc TypeError OpTimedelta v))"

text \<open>\<^verbatim>\<open>datetime + timedelta\<close>: the result must be a date between the years 1 and 9999.\<close>

definition datetime_add :: "int \<Rightarrow> int \<Rightarrow> py_exc + int" where
  "datetime_add d delta =
     (if 0 \<le> d + delta \<and> d + delta \<le> DATETIME_MAX then Inr (d + delta)
      else Inl (Exc OverflowError OpDateAdd (PyInt (d + delta))))"

subsection \<open>The access token\<close>

text \<open>\<^verbatim>\<open>v[-20:]\<close>, the last 20 items of a string or a list; any other value raises
  (for a dict the class depends on the Python version; only the raise matters here).\<close>

definition py_last20 :: "pyval \<Rightarrow> py_exc + pyval" where
  "py_last20 v =
     (case v of
        PyStr s \<Rightarrow> Inr (PyStr (drop (length s - 20) s))
      | PyList xs \<Rightarrow> Inr (PyList (drop (length xs - 20) xs))
      | _ \<Rightarrow> Inl (Exc TypeError OpSlice v))"

text \<open>The expiration that \<^verbatim>\<open>_get_access_token\<close> stores, from the token response and the
  clock reading \<open>t\<close>:
  \<^verbatim>\<open>datetime.now() + timedelta(seconds=response.get('expires_in', 0))
  - timedelta(seconds=ApiConfig.TOKEN_REFRESH_MARGIN)\<close>.\<close>

definition token_expiration :: "env \<Rightarrow> pyval \<Rightarrow> int \<Rightarrow> py_exc + int" where
  "token_expiration E response t =
     (case py_get response ''expires_in'' (PyInt 0) of
        Inl e \<Rightarrow> Inl e
      | Inr expires_in \<Rightarrow>
          (case timedelta_seconds E expires_in of
             Inl e \<Rightarrow> Inl e
           | Inr lifetime \<Rightarrow>
               (case datetime_add t lifetime of
                  Inl e \<Rightarrow> Inl e
                | Inr nominal \<Rightarrow> datetime_add nominal (- (TOKEN_REFRESH_MARGIN * 1000000)))))"

text \<open>The arguments of the log line of \<^verbatim>\<open>_get_access_token\<close>, evaluated at the clock
  reading \<open>t\<close>; only the exception matters.\<close>

definition log_new_token :: "env \<Rightarrow> pyval \<Rightarrow> int \<Rightarrow> py_exc + unit" where
  "log_new_token E response t =
     (case py_get response ''expires_in'' (PyInt 0) of
        Inl e \<Rightarrow> Inl e
      | Inr expires_in \<Rightarrow>
          (case timedelta_seconds E expires_in of
             Inl e \<Rightarrow> Inl e
           | Inr lifetime \<Rightarrow>
               (case datetime_add t lifetime of
                  Inl e \<Rightarrow> Inl e
                | Inr nominal \<Rightarrow>
                    (case py_get response ''token_type'' (PyStr '''') of
                       Inl e \<Rightarrow> Inl e
                     | Inr token_type \<Rightarrow>
                         (case py_get response ''access_token'' (PyStr ''N/A'') of
                            Inl e \<Rightarrow> Inl e
                          | Inr token \<Rightarrow>
                              (case py_last20 token of Inl e \<Rightarrow> Inl e | Inr tail \<Rightarrow> Inr ()))))))"

text \<open>\<^verbatim>\<open>_get_access_token\<close>.\<close>

definition get_access_token :: "env \<Rightarrow> Husqvarna \<Rightarrow> (py_exc + bool) \<times> Husqvarna" where
  "get_access_token E self =
     (let auth_data =
            PyDict [(''grant_type'', PyStr ''client_credentials''),
                    (''client_id'', PyStr (client_id self)),
                    (''client_secret'', PyStr (client_secret self)),
                    (''token_endpoint'', PyStr TOKEN_REQUEST)]
      in case http_with_retry E POST TOKEN_REQUEST PyNone auth_data PyNone self of
           (response, self1) \<Rightarrow>
             (if truthy response then
                (case now E (self1\<lparr>state := (state self1)\<lparr>access_token := response, error := None\<rparr>\<rparr>) of
                   (t, self2) \<Rightarrow>
                     (case token_expiration E response t of
                        Inl e \<Rightarrow> (Inl e, self2)
                      | Inr expiration \<Rightarrow>
                          (case now E (self2\<lparr>state := (state self2)\<lparr>access_token_expiration := expiration\<rparr>\<rparr>) of
                             (t', self3) \<Rightarrow>
                               (case log_new_token E response t' of
                                  Inl e \<Rightarrow> (Inl e, self3)
                                | Inr u \<Rightarrow> (Inr True, self3)))))
              else
                (Inr False,
                 set_error (Some (''Bad or unauthorized authentication request (url: '' @
                                  TOKEN_REQUEST @ '').'')) self1)))"

text \<open>The arguments of the log line of \<^verbatim>\<open>_check_access_token_and_renew\<close> when the token
  is kept.\<close>

definition log_existing_token :: "pyval \<Rightarrow> py_exc + unit" where
  "log_existing_token token =
     (if truthy token then
        (case py_get token ''token_type'' (PyStr '''') of
           Inl e \<Rightarrow> Inl e
         | Inr token_type \<Rightarrow>
             (case py_get token ''access_token'' (PyStr ''N/A'') of
                Inl e \<Rightarrow> Inl e
              | Inr tok \<Rightarrow> (case py_last20 tok of Inl e \<Rightarrow> Inl e | Inr tail \<Rightarrow> Inr ())))
      else Inr ())"

text \<open>\<^verbatim>\<open>_check_access_token_and_renew\<close>.\<close>

definition check_access_token_and_renew :: "env \<Rightarrow> Husqvarna \<Rightarrow> (py_exc + bool) \<times> Husqvarna" where
  "check_access_token_and_renew E self =
     (case now E self of
        (t, self1) \<Rightarrow>
          (if t > access_token_expiration (state self1) then
             (case get_access_token E self1 of
                (Inl e, self2) \<Rightarrow> (Inl e, self2)
              | (Inr ok, self2) \<Rightarrow> (Inr ok, self2\<lparr>state := (state self2)\<lparr>authenticated := ok\<rparr>\<rparr>))
           else
             (case log_existing_token (access_token (state self1)) of
                Inl e \<Rightarrow> (Inl e, self1)
              | Inr u \<Rightarrow> (Inr True, self1\<lparr>state := (state self1)\<lparr>authenticated := True\<rparr>\<rparr>))))"

text \<open>\<^verbatim>\<open>__init__\<close> on a given world; when it raises, no client exists.\<close>

definition init :: "env \<Rightarrow> string \<Rightarrow> string \<Rightarrow> world \<Rightarrow> (py_exc + unit) \<times> Husqvarna" where
  "init E cid secret w =
     (case get_access_token E
             \<lparr>client_id = cid, client_secret = secret, mowers = [],
              state = \<lparr>access_token = PyNone, access_token_expiration = DATETIME_2000,
                       timestamp_last_update_mower_list = DATETIME_2000, error = None,
                       api_limit_reached = False, authenticated = False\<rparr>,
              io = w\<rparr> of
        (Inl e, self) \<Rightarrow> (Inl e, self)
      | (Inr ok, self) \<Rightarrow> (Inr (), self\<lparr>state := (state self)\<lparr>authenticated := ok\<rparr>\<rparr>))"

subsection \<open>The mower list\<close>

text \<open>\<^verbatim>\<open>for x in v\<close>: the items of a list, the keys of a dict, the characters of a string.\<close>

definition py_iter :: "pyval \<Rightarrow> py_exc + pyval list" where
  "py_iter v =
     (case v of
        PyList xs \<Rightarrow> Inr xs
      | PyDict d \<Rightarrow> Inr (map (\<lambda>kv. PyStr (fst kv)) d)
      | PyStr s \<Rightarrow> Inr (map (\<lambda>c. PyStr [c]) s)
      | _ \<Rightarrow> Inl (Exc TypeError OpIter v))"

text \<open>One entry of the list comprehension of \<^verbatim>\<open>_get_mowers\<close>.\<close>

definition mower_entry :: "pyval \<Rightarrow> py_exc + pydict" where
  "mower_entry mower =
     (case py_get mower ''id'' PyNone of
        Inl e \<Rightarrow> Inl e
      | Inr mower_id \<Rightarrow>
          (case py_get mower ''attributes'' (PyDict []) of
             Inl e \<Rightarrow> Inl e
           | Inr attributes \<Rightarrow>
               (case py_get attributes ''system'' (PyDict []) of
                  Inl e \<Rightarrow> Inl e
                | Inr system \<Rightarrow>
                    (case py_get system ''name'' PyNone of
                       Inl e \<Rightarrow> Inl e
                     | Inr name \<Rightarrow> Inr [(''id'', mower_id), (''name'', name)]))))"

fun mower_entries :: "pyval list \<Rightarrow> py_exc + pydict list" where
  "mower_entries [] = Inr []"
| "mower_entries (mower # rest) =
     (case mower_entry mower of
        Inl e \<Rightarrow> Inl e
      | Inr entry \<Rightarrow> (case mower_entries rest of Inl e \<Rightarrow> Inl e | Inr entries \<Rightarrow> Inr (entry # entries)))"

text \<open>The whole comprehension, from the decoded response.\<close>

definition parse_mower_list :: "pyval \<Rightarrow> py_exc + pydict list" where
  "parse_mower_list response =
     (case py_get response ''data'' (PyList []) of
        Inl e \<Rightarrow> Inl e
      | Inr data \<Rightarrow> (case py_iter data of Inl e \<Rightarrow> Inl e | Inr items \<Rightarrow> mower_entries items))"

text \<open>\<^verbatim>\<open>_get_mowers\<close>; the name \<open>get_mowers\<close> is the public method. Its handler catches
  \<^verbatim>\<open>KeyError\<close> and \<^verbatim>\<open>TypeError\<close> only.\<close>

definition get_mowers_impl :: "env \<Rightarrow> Husqvarna \<Rightarrow> (py_exc + bool) \<times> Husqvarna" where
  "get_mowers_impl E self =
     (case http_with_retry E GET MOWERS PyNone PyNone PyNone self of
        (response, self1) \<Rightarrow>
          (if truthy response then
             (case parse_mower_list response of
                Inr entries \<Rightarrow> (Inr True, self1\<lparr>mowers := entries\<rparr>)
              | Inl (Exc c opn v) \<Rightarrow>
                  (if c = KeyError \<or> c = TypeError then (Inr False, self1)
                   else (Inl (Exc c opn v), self1)))
           else (Inr False, self1)))"

text \<open>\<^verbatim>\<open>get_mowers\<close>.\<close>

definition get_mowers :: "env \<Rightarrow> Husqvarna \<Rightarrow> (py_exc + bool) \<times> Husqvarna" where
  "get_mowers E self =
     (case check_access_token_and_renew E self of
        (Inl e, self1) \<Rightarrow> (Inl e, self1)
      | (Inr ok, self1) \<Rightarrow>
          (if ok then
             (case get_mowers_impl E self1 of
                (Inl e, self2) \<Rightarrow> (Inl e, self2)
              | (Inr got, self2) \<Rightarrow>
                  (if got then
                     (case now E self2 of
                        (t, self3) \<Rightarrow>
                          (Inr True,
                           self3\<lparr>state := (state self3)\<lparr>timestamp_last_update_mower_list := t\<rparr>\<rparr>))
                   else (Inr False, self2)))
           else (Inr False, self1)))"

definition get_timestamp_last_update_mower_list :: "Husqvarna \<Rightarrow> int" where
  "get_timestamp_last_update_mower_list self = timestamp_last_update_mower_list (state self)"

definition are_api_limits_reached :: "Husqvarna \<Rightarrow> bool" where
  "are_api_limits_reached self = api_limit_reached (state self)"





subsection \<open>Detailed mower information\<close>

text \<open>\<^verbatim>\<open>self.mowers[index][key] = v\<close>, for an index of the list.\<close>

definition update_mower :: "nat \<Rightarrow> string \<Rightarrow> pyval \<Rightarrow> Husqvarna \<Rightarrow> Husqvarna" where
  "update_mower index key v self =
     self\<lparr>mowers := (mowers self)[index := dict_set (mowers self ! index) key v]\<rparr>"







subsection \<open>Commands and settings\<close>










subsection \<open>The public operations that talk to the API\<close>




subsection \<open>Observing the token\<close>

text \<open>Between two states of the client the token and its expiration are the same, no
  request that was sent in between went to the token endpoint, and the stored error is the
  same when nothing was sent.\<close>

definition token_kept :: "Husqvarna \<Rightarrow> Husqvarna \<Rightarrow> bool" where
  "token_kept self self' \<longleftrightarrow>
     access_token (state self') = access_token (state self) \<and>
     access_token_expiration (state self') = access_token_expiration (state self) \<and>
     (\<exists>evs. trace (io self') = trace (io self) @ evs \<and>
        (\<forall>ev \<in> set evs. \<forall>req a. ev = Sent req a \<longrightarrow> req_url req \<noteq> TOKEN_REQUEST) \<and>
        (evs = [] \<longrightarrow> error (state self') = error (state self)))"

subsection \<open>Sample environments\<close>

text \<open>An environment from a network and a clock, with fixed texts for what Python
  prints and no float that is an integer or a duration.\<close>

definition plain_env :: "(nat \<Rightarrow> request \<Rightarrow> attempt) \<Rightarrow> (nat \<Rightarrow> int) \<Rightarrow> env" where
  "plain_env net clk =
     \<lparr>respond = net, now_at = clk, repr_val = (\<lambda>v. ''<value>''),
      str_exc = (\<lambda>e. ''<exception>''), float_int = (\<lambda>f. None),
      float_timedelta = (\<lambda>f. Inl (Exc OverflowError OpTimedelta (PyFloat f)))\<rparr>"

text \<open>A response with a status and a JSON body, and one whose body is no JSON.\<close>

definition json_response :: "int \<Rightarrow> pyval \<Rightarrow> attempt" where
  "json_response status body =
     Responded \<lparr>status_code = status, json_body = Inr body, resp_text = ''<body>''\<rparr>"

definition text_response :: "int \<Rightarrow> string \<Rightarrow> attempt" where
  "text_response status body =
     Responded \<lparr>status_code = status, json_body = Inl ''Expecting value'', resp_text = body\<rparr>"

text \<open>A client that holds a token until \<open>expiration\<close>, with a list of mowers, in a world
  where nothing has happened yet.\<close>

definition client_with :: "pydict list \<Rightarrow> int \<Rightarrow> Husqvarna" where
  "client_with ms expiration =
     \<lparr>client_id = ''id'', client_secret = ''secret'', mowers = ms,
      state = \<lparr>access_token = PyDict [(''access_token'', PyStr ''t0''), (''expires_in'', PyInt 3600)],
               access_token_expiration = expiration,
               timestamp_last_update_mower_list = DATETIME_2000, error = None,
               api_limit_reached = False, authenticated = True\<rparr>,
      io = \<lparr>sent = 0, clock = 0, trace = []\<rparr>\<rparr>"

section \<open>Properties\<close>

subsection \<open>Helper facts\<close>



text \<open>The small state transformers, field by field.\<close>

lemma send_simps [simp]:
  "fst (send E req self) = respond E (sent (io self)) req"
  "state (snd (send E req self)) = state self"
  "mowers (snd (send E req self)) = mowers self"
  "client_id (snd (send E req self)) = client_id self"
  "client_secret (snd (send E req self)) = client_secret self"
  "trace (io (snd (send E req self))) = trace (io self) @ [Sent req (respond E (sent (io self)) req)]"
  "sent (io (snd (send E req self))) = Suc (sent (io self))"
  "clock (io (snd (send E req self))) = clock (io self)"
  by (simp_all add: send_def Let_def)

lemma set_error_simps [simp]:
  "io (set_error e self) = io self"
  "mowers (set_error e self) = mowers self"
  "client_id (set_error e self) = client_id self"
  "client_secret (set_error e self) = client_secret self"
  "error (state (set_error e self)) = e"
  "api_limit_reached (state (set_error e self)) = api_limit_reached (state self)"
  "access_token (state (set_error e self)) = access_token (state self)"
  "access_token_expiration (state (set_error e self)) = access_token_expiration (state self)"
  "timestamp_last_update_mower_list (state (set_error e self)) = timestamp_last_update_mower_list (state self)"
  "authenticated (state (set_error e self)) = authenticated (state self)"
  by (simp_all add: set_error_def)

lemma wait_before_retry_simps [simp]:
  "state (wait_before_retry rc ex self) = state self"
  "mowers (wait_before_retry rc ex self) = mowers self"
  "client_id (wait_before_retry rc ex self) = client_id self"
  "client_secret (wait_before_retry rc ex self) = client_secret self"
  "sent (io (wait_before_retry rc ex self)) = sent (io self)"
  "clock (io (wait_before_retry rc ex self)) = clock (io self)"
  "trace (io (wait_before_retry rc ex self)) =
     (if rc < 3 \<and> \<not> ex then trace (io self) @ [Slept (RETRY_DELAY * (int rc + 1))] else trace (io self))"
  by (simp_all add: wait_before_retry_def sleep_def)

lemma analyze_simps [simp]:
  "fst (analyze_http_error E r u mn self) = error_message E r u mn"
  "io (snd (analyze_http_error E r u mn self)) = io self"
  "mowers (snd (analyze_http_error E r u mn self)) = mowers self"
  "client_id (snd (analyze_http_error E r u mn self)) = client_id self"
  "client_secret (snd (analyze_http_error E r u mn self)) = client_secret self"
  "error (state (snd (analyze_http_error E r u mn self))) = error (state self)"
  "api_limit_reached (state (snd (analyze_http_error E r u mn self))) = (status_code r = 429)"
  "access_token (state (snd (analyze_http_error E r u mn self))) = access_token (state self)"
  "access_token_expiration (state (snd (analyze_http_error E r u mn self))) = access_token_expiration (state self)"
  "timestamp_last_update_mower_list (state (snd (analyze_http_error E r u mn self))) = timestamp_last_update_mower_list (state self)"
  "authenticated (state (snd (analyze_http_error E r u mn self))) = authenticated (state self)"
  by (simp_all add: analyze_http_error_def)

lemma http_loop_end:
  "http_loop E req mn rc resp self = (ok, resp', self') \<Longrightarrow> rc < 3 \<Longrightarrow>
   \<exists>a. last (trace (io self')) = Sent req a \<and>
     (case a of
        Responded r \<Rightarrow>
          resp' = Some r \<and>
          (if 200 \<le> status_code r \<and> status_code r < 300
           then ok \<and> error (state self') = None \<and> \<not> api_limit_reached (state self')
           else \<not> ok \<and>
             (if 400 \<le> status_code r \<and> status_code r < 600
              then error (state self') = Some (error_message E r (req_url req) mn) \<and>
                   api_limit_reached (state self') = (status_code r = 429)
              else error (state self') =
                     Some (unhandled_status (status_code r)) \<and>
                   api_limit_reached (state self') = api_limit_reached (state self)))
      | RequestError e \<Rightarrow>
          \<not> ok \<and> error (state self') = Some (connection_error 2 (req_url req) e) \<and>
          api_limit_reached (state self') = api_limit_reached (state self))"
proof (induction E req mn rc resp self arbitrary: ok resp' self' rule: http_loop.induct)
  case (1 E req mn rc resp self)
  define a where "a = respond E (sent (io self)) req"
  define self1 where "self1 = snd (send E req self)"
  have s: "send E req self = (a, self1)"
    by (simp add: a_def self1_def send_def Let_def)
  have self1: "state self1 = state self"
    "trace (io self1) = trace (io self) @ [Sent req a]"
    by (simp_all add: a_def self1_def)
  note unf = "1.prems"(1)[unfolded http_loop.simps[of E req mn rc resp self] s]
  show ?case
  proof (cases a)
    case (Responded r)
    consider (ok) "200 \<le> status_code r \<and> status_code r < 300"
      | (final) "\<not> (200 \<le> status_code r \<and> status_code r < 300)" "400 \<le> status_code r \<and> status_code r < 600"
          "rc + 1 \<ge> 3 \<or> (status_code r \<noteq> 403 \<and> status_code r < 500)"
      | (retry) "status_code r = 403 \<or> (500 \<le> status_code r \<and> status_code r < 600)" "\<not> rc + 1 \<ge> 3"
      | (other) "\<not> (200 \<le> status_code r \<and> status_code r < 300)" "\<not> (400 \<le> status_code r \<and> status_code r < 600)"
      by fastforce
    then show ?thesis
    proof cases
      case ok
      with unf Responded "1.prems"(2) show ?thesis
        by (auto simp: self1)
    next
      case final
      with unf Responded "1.prems"(2) show ?thesis
        by (auto simp: self1 analyze_http_error_def split: if_splits)
    next
      case retry
      have rec: "http_loop E req mn (rc + 1) (Some r) (wait_before_retry (rc + 1) False self1) = (ok, resp', self')"
        using unf Responded retry by (auto split: if_splits)
      have "rc + 1 < 3" using retry by simp
      from retry consider "status_code r = 403" | "status_code r \<noteq> 403" "500 \<le> status_code r \<and> status_code r < 600"
        by blast
      then have "\<exists>a. last (trace (io self')) = Sent req a \<and>
     (case a of
        Responded r \<Rightarrow>
          resp' = Some r \<and>
          (if 200 \<le> status_code r \<and> status_code r < 300
           then ok \<and> error (state self') = None \<and> \<not> api_limit_reached (state self')
           else \<not> ok \<and>
             (if 400 \<le> status_code r \<and> status_code r < 600
              then error (state self') = Some (error_message E r (req_url req) mn) \<and>
                   api_limit_reached (state self') = (status_code r = 429)
              else error (state self') =
                     Some (unhandled_status (status_code r)) \<and>
                   api_limit_reached (state self') = api_limit_reached (state (wait_before_retry (rc + 1) False self1))))
      | RequestError e \<Rightarrow>
          \<not> ok \<and> error (state self') = Some (connection_error 2 (req_url req) e) \<and>
          api_limit_reached (state self') = api_limit_reached (state (wait_before_retry (rc + 1) False self1)))"
      proof cases
        case 1
        show ?thesis
          by (rule "1.IH"(1)[OF "1.prems"(2) s[symmetric] Responded _ 1 _ rec \<open>rc + 1 < 3\<close>])
             (use retry in auto)
      next
        case 2
        show ?thesis
          by (rule "1.IH"(2)[OF "1.prems"(2) s[symmetric] Responded _ 2(1) _ 2(2) _ rec \<open>rc + 1 < 3\<close>])
             (use retry 2 in auto)
      qed
      then show ?thesis by (auto simp: self1 split: attempt.splits)
    next
      case other
      with unf Responded "1.prems"(2) show ?thesis
        by (auto simp: self1)
    qed
  next
    case (RequestError e)
    show ?thesis
    proof (cases "rc + 1 \<ge> 3")
      case True
      then have "rc = 2" using "1.prems"(2) by simp
      with unf RequestError True show ?thesis
        by (auto simp: self1 connection_error_def)
    next
      case False
      define self2 where "self2 = set_error (Some (connection_error rc (req_url req) e)) self1"
      have rec: "http_loop E req mn (rc + 1) resp (wait_before_retry (rc + 1) False self2) = (ok, resp', self')"
        using unf RequestError False by (auto simp: self2_def Let_def)
      have "rc + 1 < 3" using False by simp
      have "\<exists>a. last (trace (io self')) = Sent req a \<and>
     (case a of
        Responded r \<Rightarrow>
          resp' = Some r \<and>
          (if 200 \<le> status_code r \<and> status_code r < 300
           then ok \<and> error (state self') = None \<and> \<not> api_limit_reached (state self')
           else \<not> ok \<and>
             (if 400 \<le> status_code r \<and> status_code r < 600
              then error (state self') = Some (error_message E r (req_url req) mn) \<and>
                   api_limit_reached (state self') = (status_code r = 429)
              else error (state self') =
                     Some (unhandled_status (status_code r)) \<and>
                   api_limit_reached (state self') = api_limit_reached (state (wait_before_retry (rc + 1) False self2))))
      | RequestError e \<Rightarrow>
          \<not> ok \<and> error (state self') = Some (connection_error 2 (req_url req) e) \<and>
          api_limit_reached (state self') = api_limit_reached (state (wait_before_retry (rc + 1) False self2)))"
        by (rule "1.IH"(3)[OF "1.prems"(2) s[symmetric] RequestError self2_def False rec \<open>rc + 1 < 3\<close>])
      then show ?thesis by (auto simp: self1 self2_def split: attempt.splits)
    qed
  qed
qed


text \<open>What a run of the loop leaves alone, and the shape of what it adds to the trace.\<close>

lemma http_loop_frame:
  "http_loop E req mn rc resp self = (ok, resp', self') \<Longrightarrow> rc < 3 \<Longrightarrow>
   mowers self' = mowers self \<and> client_id self' = client_id self \<and>
   client_secret self' = client_secret self \<and> clock (io self') = clock (io self) \<and>
   access_token (state self') = access_token (state self) \<and>
   access_token_expiration (state self') = access_token_expiration (state self) \<and>
   timestamp_last_update_mower_list (state self') = timestamp_last_update_mower_list (state self) \<and>
   authenticated (state self') = authenticated (state self) \<and>
   (\<exists>evs. trace (io self') = trace (io self) @ Sent req (respond E (sent (io self)) req) # evs \<and>
      (\<forall>ev \<in> set evs. (\<exists>a. ev = Sent req a) \<or> (\<exists>d. ev = Slept d)))"
proof (induction E req mn rc resp self arbitrary: ok resp' self' rule: http_loop.induct)
  case (1 E req mn rc resp self)
  define a where "a = respond E (sent (io self)) req"
  define self1 where "self1 = snd (send E req self)"
  have s: "send E req self = (a, self1)"
    by (simp add: a_def self1_def send_def Let_def)
  have self1: "state self1 = state self" "mowers self1 = mowers self"
    "client_id self1 = client_id self" "client_secret self1 = client_secret self"
    "clock (io self1) = clock (io self)"
    "trace (io self1) = trace (io self) @ [Sent req a]"
    by (simp_all add: a_def self1_def)
  have ra: "respond E (sent (io self)) req = a"
    by (simp add: a_def)
  note unf = "1.prems"(1)[unfolded http_loop.simps[of E req mn rc resp self] s]
  let ?P = "\<lambda>s0 s1. mowers s1 = mowers s0 \<and> client_id s1 = client_id s0 \<and>
   client_secret s1 = client_secret s0 \<and> clock (io s1) = clock (io s0) \<and>
   access_token (state s1) = access_token (state s0) \<and>
   access_token_expiration (state s1) = access_token_expiration (state s0) \<and>
   timestamp_last_update_mower_list (state s1) = timestamp_last_update_mower_list (state s0) \<and>
   authenticated (state s1) = authenticated (state s0) \<and>
   (\<exists>evs. trace (io s1) = trace (io s0) @ Sent req (respond E (sent (io s0)) req) # evs \<and>
      (\<forall>ev \<in> set evs. (\<exists>a. ev = Sent req a) \<or> (\<exists>d. ev = Slept d)))"
  have step: "?P self self'" if "?P mid self'"
    "access_token (state mid) = access_token (state self) \<and>
     access_token_expiration (state mid) = access_token_expiration (state self) \<and>
     timestamp_last_update_mower_list (state mid) = timestamp_last_update_mower_list (state self) \<and>
     authenticated (state mid) = authenticated (state self)"
    "mowers mid = mowers self"
    "client_id mid = client_id self" "client_secret mid = client_secret self"
    "clock (io mid) = clock (io self)"
    "trace (io mid) = trace (io self) @ [Sent req a, Slept d]" for mid :: Husqvarna and d
  proof -
    from that(1) obtain evs where
      evs: "trace (io self') = trace (io mid) @ Sent req (respond E (sent (io mid)) req) # evs"
        "\<forall>ev \<in> set evs. (\<exists>a. ev = Sent req a) \<or> (\<exists>d. ev = Slept d)"
      by blast
    have "trace (io self') = trace (io self) @ Sent req (respond E (sent (io self)) req) #
            (Slept d # Sent req (respond E (sent (io mid)) req) # evs)"
      using evs(1) that(7) by (simp add: ra)
    moreover have "\<forall>ev \<in> set (Slept d # Sent req (respond E (sent (io mid)) req) # evs).
        (\<exists>a. ev = Sent req a) \<or> (\<exists>d. ev = Slept d)"
      using evs(2) by auto
    ultimately show ?thesis using that(1-6) by (metis (no_types, lifting))
  qed
  show ?case
  proof (cases a)
    case (Responded r)
    consider (ok) "200 \<le> status_code r \<and> status_code r < 300"
      | (final) "\<not> (200 \<le> status_code r \<and> status_code r < 300)" "400 \<le> status_code r \<and> status_code r < 600"
          "rc + 1 \<ge> 3 \<or> (status_code r \<noteq> 403 \<and> status_code r < 500)"
      | (retry) "status_code r = 403 \<or> (500 \<le> status_code r \<and> status_code r < 600)" "\<not> rc + 1 \<ge> 3"
      | (other) "\<not> (200 \<le> status_code r \<and> status_code r < 300)" "\<not> (400 \<le> status_code r \<and> status_code r < 600)"
      by fastforce
    then show ?thesis
    proof cases
      case ok
      with unf Responded "1.prems"(2) show ?thesis
        by (auto simp: self1 ra)
    next
      case final
      with unf Responded "1.prems"(2) show ?thesis
        by (auto simp: self1 ra analyze_http_error_def split: if_splits)
    next
      case retry
      have rec: "http_loop E req mn (rc + 1) (Some r) (wait_before_retry (rc + 1) False self1) = (ok, resp', self')"
        using unf Responded retry by (auto split: if_splits)
      have lt: "rc + 1 < 3" using retry by simp
      from retry consider "status_code r = 403" | "status_code r \<noteq> 403" "500 \<le> status_code r \<and> status_code r < 600"
        by blast
      then have "?P (wait_before_retry (rc + 1) False self1) self'"
      proof cases
        case 1
        show ?thesis
          by (rule "1.IH"(1)[OF "1.prems"(2) s[symmetric] Responded _ 1 _ rec lt])
             (use retry in auto)
      next
        case 2
        show ?thesis
          by (rule "1.IH"(2)[OF "1.prems"(2) s[symmetric] Responded _ 2(1) _ 2(2) _ rec lt])
             (use retry 2 in auto)
      qed
      then show ?thesis
        by (rule step) (use lt in \<open>simp_all add: self1\<close>)
    next
      case other
      with unf Responded "1.prems"(2) show ?thesis
        by (auto simp: self1 ra)
    qed
  next
    case (RequestError e)
    show ?thesis
    proof (cases "rc + 1 \<ge> 3")
      case True
      with unf RequestError "1.prems"(2) show ?thesis
        by (auto simp: self1 ra)
    next
      case False
      define self2 where "self2 = set_error (Some (connection_error rc (req_url req) e)) self1"
      have rec: "http_loop E req mn (rc + 1) resp (wait_before_retry (rc + 1) False self2) = (ok, resp', self')"
        using unf RequestError False by (auto simp: self2_def Let_def)
      have lt: "rc + 1 < 3" using False by simp
      have "?P (wait_before_retry (rc + 1) False self2) self'"
        by (rule "1.IH"(3)[OF "1.prems"(2) s[symmetric] RequestError self2_def False rec lt])
      then show ?thesis
        by (rule step) (use lt in \<open>simp_all add: self1 self2_def\<close>)
    qed
  qed
qed

lemma req_url_make_request [simp]: "req_url (make_request m u j d) = u"
  by (simp add: make_request_def)

lemma http_with_retry_end:
  assumes "http_with_retry E m u j d mn self = (res, self')"
  shows "\<exists>a. last (trace (io self')) = Sent (make_request m u j d) a \<and>
     (\<forall>r. a = Responded r \<longrightarrow>
        (if 200 \<le> status_code r \<and> status_code r < 300
         then \<not> api_limit_reached (state self') \<and>
              (\<forall>body. json_body r = Inr body \<longrightarrow> res = body \<and> error (state self') = None) \<and>
              (\<forall>e. json_body r = Inl e \<longrightarrow>
                 res = PyNone \<and> error (state self') = Some (''Error parsing JSON response: '' @ e))
         else res = PyNone \<and>
           (if 400 \<le> status_code r \<and> status_code r < 600
            then error (state self') = Some (error_message E r u mn) \<and>
                 api_limit_reached (state self') = (status_code r = 429)
            else error (state self') = Some (unhandled_status (status_code r)) \<and>
                 api_limit_reached (state self') = api_limit_reached (state self)))) \<and>
     (\<forall>e. a = RequestError e \<longrightarrow>
        res = PyNone \<and> error (state self') = Some (connection_error 2 u e) \<and>
        api_limit_reached (state self') = api_limit_reached (state self))"
proof -
  obtain ok resp' self1 where
    l: "http_loop E (make_request m u j d) mn 0 None (set_error (Some '''') self) = (ok, resp', self1)"
    by (metis prod_cases3)
  from http_loop_end[OF l] obtain a where
    a: "last (trace (io self1)) = Sent (make_request m u j d) a"
       "case a of
        Responded r \<Rightarrow>
          resp' = Some r \<and>
          (if 200 \<le> status_code r \<and> status_code r < 300
           then ok \<and> error (state self1) = None \<and> \<not> api_limit_reached (state self1)
           else \<not> ok \<and>
             (if 400 \<le> status_code r \<and> status_code r < 600
              then error (state self1) = Some (error_message E r (req_url (make_request m u j d)) mn) \<and>
                   api_limit_reached (state self1) = (status_code r = 429)
              else error (state self1) = Some (unhandled_status (status_code r)) \<and>
                   api_limit_reached (state self1) = api_limit_reached (state (set_error (Some '''') self))))
      | RequestError e \<Rightarrow>
          \<not> ok \<and> error (state self1) = Some (connection_error 2 (req_url (make_request m u j d)) e) \<and>
          api_limit_reached (state self1) = api_limit_reached (state (set_error (Some '''') self))"
    by auto
  from assms l have res: "(res, self') =
          (if ok then
             (case resp' of
                None \<Rightarrow> (PyNone, self1)
              | Some r \<Rightarrow>
                  (case json_body r of
                     Inr body \<Rightarrow> (body, self1)
                   | Inl e \<Rightarrow> (PyNone, set_error (Some (''Error parsing JSON response: '' @ e)) self1)))
           else (PyNone, self1))"
    by (simp add: http_with_retry_def)
  show ?thesis
  proof (cases a)
    case (Responded r)
    with a res show ?thesis
      by (cases "json_body r") (auto split: if_splits)
  next
    case (RequestError e)
    with a res show ?thesis
      by auto
  qed
qed

lemma http_with_retry_frame:
  assumes "http_with_retry E m u j d mn self = (res, self')"
  shows "mowers self' = mowers self \<and> client_id self' = client_id self \<and>
   client_secret self' = client_secret self \<and> clock (io self') = clock (io self) \<and>
   access_token (state self') = access_token (state self) \<and>
   access_token_expiration (state self') = access_token_expiration (state self) \<and>
   timestamp_last_update_mower_list (state self') = timestamp_last_update_mower_list (state self) \<and>
   authenticated (state self') = authenticated (state self) \<and>
   (\<exists>evs. trace (io self') =
            trace (io self) @
            Sent (make_request m u j d) (respond E (sent (io self)) (make_request m u j d)) # evs \<and>
      (\<forall>ev \<in> set evs. (\<exists>a. ev = Sent (make_request m u j d) a) \<or> (\<exists>d. ev = Slept d)))"
proof -
  obtain ok resp' self1 where
    l: "http_loop E (make_request m u j d) mn 0 None (set_error (Some '''') self) = (ok, resp', self1)"
    by (metis prod_cases3)
  from assms l have res: "(res, self') =
          (if ok then
             (case resp' of
                None \<Rightarrow> (PyNone, self1)
              | Some r \<Rightarrow>
                  (case json_body r of
                     Inr body \<Rightarrow> (body, self1)
                   | Inl e \<Rightarrow> (PyNone, set_error (Some (''Error parsing JSON response: '' @ e)) self1)))
           else (PyNone, self1))"
    by (simp add: http_with_retry_def)
  then have "self' = self1 \<or> (\<exists>x. self' = set_error x self1)"
    by (auto split: if_splits option.splits sum.splits)
  with http_loop_frame[OF l] show ?thesis
    by (elim disjE exE) simp_all
qed

lemma sleep_simps [simp]:
  "state (sleep d self) = state self"
  "mowers (sleep d self) = mowers self"
  "sent (io (sleep d self)) = sent (io self)"
  "clock (io (sleep d self)) = clock (io self)"
  "trace (io (sleep d self)) = trace (io self) @ [Slept d]"
  by (simp_all add: sleep_def)

lemma error_context_nonempty: "error_context E mn r \<noteq> []"
  by (simp add: error_context_def)


















text \<open>The token: what acquiring and checking it change, and what the operations do after
  the check.\<close>

lemma now_simps [simp]:
  "fst (now E self) = now_at E (clock (io self))"
  "state (snd (now E self)) = state self"
  "mowers (snd (now E self)) = mowers self"
  "client_id (snd (now E self)) = client_id self"
  "client_secret (snd (now E self)) = client_secret self"
  "trace (io (snd (now E self))) = trace (io self)"
  "sent (io (snd (now E self))) = sent (io self)"
  "clock (io (snd (now E self))) = Suc (clock (io self))"
  by (simp_all add: now_def)

text \<open>What \<^verbatim>\<open>_get_access_token\<close> leaves alone, and the request it starts with.\<close>

lemma get_access_token_frame:
  assumes "get_access_token E self = (r, self')"
  shows "mowers self' = mowers self \<and> client_id self' = client_id self \<and>
    client_secret self' = client_secret self \<and>
    timestamp_last_update_mower_list (state self') = timestamp_last_update_mower_list (state self) \<and>
    (\<exists>req a evs. trace (io self') = trace (io self) @ Sent req a # evs \<and>
       req_method req = POST \<and> req_url req = TOKEN_REQUEST)"
proof -
  let ?auth = "PyDict [(''grant_type'', PyStr ''client_credentials''),
                    (''client_id'', PyStr (client_id self)),
                    (''client_secret'', PyStr (client_secret self)),
                    (''token_endpoint'', PyStr TOKEN_REQUEST)]"
  obtain response self1 where
    h: "http_with_retry E POST TOKEN_REQUEST PyNone ?auth PyNone self = (response, self1)"
    by (cases "http_with_retry E POST TOKEN_REQUEST PyNone ?auth PyNone self")
  from http_with_retry_frame[OF h] obtain evs where
    f: "mowers self1 = mowers self" "client_id self1 = client_id self"
       "client_secret self1 = client_secret self"
       "timestamp_last_update_mower_list (state self1) = timestamp_last_update_mower_list (state self)"
       "trace (io self1) = trace (io self) @
          Sent (make_request POST TOKEN_REQUEST PyNone ?auth)
            (respond E (sent (io self)) (make_request POST TOKEN_REQUEST PyNone ?auth)) # evs"
    by blast
  have q: "req_method (make_request POST TOKEN_REQUEST PyNone ?auth) = POST"
    by (simp add: make_request_def)
  have "mowers self' = mowers self1 \<and> client_id self' = client_id self1 \<and>
    client_secret self' = client_secret self1 \<and>
    timestamp_last_update_mower_list (state self') = timestamp_last_update_mower_list (state self1) \<and>
    trace (io self') = trace (io self1)"
    using assms h
    by (auto simp: get_access_token_def Let_def case_prod_beta split: if_splits sum.splits)
  with f q show ?thesis
    by (metis req_url_make_request)
qed

lemma check_access_token_and_renew_frame:
  assumes "check_access_token_and_renew E self = (r, self')"
  shows "mowers self' = mowers self \<and> client_id self' = client_id self \<and>
    client_secret self' = client_secret self \<and>
    timestamp_last_update_mower_list (state self') = timestamp_last_update_mower_list (state self)"
proof (cases "now_at E (clock (io self)) > access_token_expiration (state self)")
  case True
  obtain r1 self1 where g: "get_access_token E (snd (now E self)) = (r1, self1)"
    by (cases "get_access_token E (snd (now E self))")
  from assms True g have "self' = self1 \<or> (\<exists>b. self' = self1\<lparr>state := (state self1)\<lparr>authenticated := b\<rparr>\<rparr>)"
    by (auto simp: check_access_token_and_renew_def case_prod_beta split: sum.splits)
  with get_access_token_frame[OF g] show ?thesis
    by auto
next
  case False
  with assms show ?thesis
    by (auto simp: check_access_token_and_renew_def case_prod_beta split: sum.splits)
qed

lemma get_mowers_impl_frame:
  assumes "get_mowers_impl E self = (r, self')"
  shows "timestamp_last_update_mower_list (state self') = timestamp_last_update_mower_list (state self)"
proof -
  obtain response self1 where
    h: "http_with_retry E GET MOWERS PyNone PyNone PyNone self = (response, self1)"
    by (cases "http_with_retry E GET MOWERS PyNone PyNone PyNone self")
  from assms h have "self' = self1 \<or> (\<exists>ms. self' = self1\<lparr>mowers := ms\<rparr>)"
    by (auto simp: get_mowers_impl_def split: if_splits sum.splits py_exc.splits)
  with http_with_retry_frame[OF h] show ?thesis
    by auto
qed







lemma update_mower_simps [simp]:
  "state (update_mower i k v self) = state self"
  "io (update_mower i k v self) = io self"
  by (simp_all add: update_mower_def)







lemma token_kept_timestamp:
  "token_kept self (self\<lparr>state := (state self)\<lparr>timestamp_last_update_mower_list := t\<rparr>\<rparr>)"
  by (simp add: token_kept_def)












subsection \<open>Token renewal\<close>



subsection \<open>Retry, rate limit and success\<close>







subsection \<open>The rate-limit flag\<close>

text \<open>
  C4 (amended). After a call of \<^verbatim>\<open>_http_with_retry\<close> the rate-limit flag is true exactly
  when the call ended on a response with status 429, provided the call ended on a response
  with a status from 200 to 299 or from 400 to 599: a success and any other such failure
  leave it false. A call that ends on a response with any other status (below 200, from
  300 to 399, 600 and above) or on a request error leaves the flag as it was before the
  call.
\<close>

theorem rate_limit_flag_after_call:
  "case http_with_retry E method url json_post_data post_data mower_name self of
     (result, self') \<Rightarrow>
       \<exists>a. last (trace (io self')) = Sent (make_request method url json_post_data post_data) a \<and>
         are_api_limits_reached self' =
           (case a of
              Responded r \<Rightarrow>
                if (200 \<le> status_code r \<and> status_code r < 300) \<or>
                   (400 \<le> status_code r \<and> status_code r < 600)
                then status_code r = 429
                else are_api_limits_reached self
            | RequestError e \<Rightarrow> are_api_limits_reached self)"
proof -
  obtain result self' where
    c: "http_with_retry E method url json_post_data post_data mower_name self = (result, self')"
    by (cases "http_with_retry E method url json_post_data post_data mower_name self")
  from http_with_retry_end[OF c] obtain a where
    a: "last (trace (io self')) = Sent (make_request method url json_post_data post_data) a"
    and r: "\<forall>r. a = Responded r \<longrightarrow>
        (if 200 \<le> status_code r \<and> status_code r < 300
         then \<not> api_limit_reached (state self') \<and>
              (\<forall>body. json_body r = Inr body \<longrightarrow> result = body \<and> error (state self') = None) \<and>
              (\<forall>e. json_body r = Inl e \<longrightarrow>
                 result = PyNone \<and> error (state self') = Some (''Error parsing JSON response: '' @ e))
         else result = PyNone \<and>
           (if 400 \<le> status_code r \<and> status_code r < 600
            then error (state self') = Some (error_message E r url mower_name) \<and>
                 api_limit_reached (state self') = (status_code r = 429)
            else error (state self') = Some (unhandled_status (status_code r)) \<and>
                 api_limit_reached (state self') = api_limit_reached (state self)))"
    and e: "\<forall>e. a = RequestError e \<longrightarrow>
        result = PyNone \<and> error (state self') = Some (connection_error 2 url e) \<and>
        api_limit_reached (state self') = api_limit_reached (state self)"
    by blast
  have "are_api_limits_reached self' =
           (case a of
              Responded r \<Rightarrow>
                if (200 \<le> status_code r \<and> status_code r < 300) \<or>
                   (400 \<le> status_code r \<and> status_code r < 600)
                then status_code r = 429
                else are_api_limits_reached self
            | RequestError e \<Rightarrow> are_api_limits_reached self)"
  proof (cases a)
    case (Responded x)
    with r[rule_format, OF Responded] show ?thesis
      by (auto simp: are_api_limits_reached_def split: if_splits)
  next
    case (RequestError x)
    with e[rule_format, OF RequestError] show ?thesis
      by (simp add: are_api_limits_reached_def)
  qed
  with a c show ?thesis
    by auto
qed

theorem rate_limit_flag_after_call_witness:
  "(case http_with_retry (plain_env (\<lambda>n req. json_response 404 (PyDict [])) (\<lambda>n. 0))
           GET MOWERS PyNone PyNone PyNone
           ((client_with [] 10)\<lparr>state := (state (client_with [] 10))\<lparr>api_limit_reached := True\<rparr>\<rparr>) of
      (result, self') \<Rightarrow>
        last (trace (io self')) =
          Sent (make_request GET MOWERS PyNone PyNone) (json_response 404 (PyDict [])) \<and>
        \<not> are_api_limits_reached self') \<and>
   (case http_with_retry (plain_env (\<lambda>n req. text_response 302 '''') (\<lambda>n. 0))
           GET MOWERS PyNone PyNone PyNone
           ((client_with [] 10)\<lparr>state := (state (client_with [] 10))\<lparr>api_limit_reached := True\<rparr>\<rparr>) of
      (result, self') \<Rightarrow>
        last (trace (io self')) =
          Sent (make_request GET MOWERS PyNone PyNone) (text_response 302 '''') \<and>
        are_api_limits_reached self')"
proof -
  let ?c = "(client_with [] 10)\<lparr>state := (state (client_with [] 10))\<lparr>api_limit_reached := True\<rparr>\<rparr>"
  let ?E1 = "plain_env (\<lambda>n req. json_response 404 (PyDict [])) (\<lambda>n. 0)"
  let ?E2 = "plain_env (\<lambda>n req. text_response 302 '''') (\<lambda>n. 0)"
  have l1: "last (trace (io (snd (http_with_retry ?E1 GET MOWERS PyNone PyNone PyNone ?c)))) =
            Sent (make_request GET MOWERS PyNone PyNone) (json_response 404 (PyDict []))"
    by code_simp
  have l2: "last (trace (io (snd (http_with_retry ?E2 GET MOWERS PyNone PyNone PyNone ?c)))) =
            Sent (make_request GET MOWERS PyNone PyNone) (text_response 302 '''')"
    by code_simp
  have f: "are_api_limits_reached ?c"
    by (simp add: are_api_limits_reached_def)
  from rate_limit_flag_after_call[where E="?E1" and url=MOWERS and json_post_data=PyNone
      and post_data=PyNone and mower_name=PyNone and self="?c", of GET] l1
  have 1: "\<not> are_api_limits_reached (snd (http_with_retry ?E1 GET MOWERS PyNone PyNone PyNone ?c))"
    by (auto simp: case_prod_beta json_response_def)
  from rate_limit_flag_after_call[where E="?E2" and url=MOWERS and json_post_data=PyNone
      and post_data=PyNone and mower_name=PyNone and self="?c", of GET] l2 f
  have 2: "are_api_limits_reached (snd (http_with_retry ?E2 GET MOWERS PyNone PyNone PyNone ?c))"
    by (auto simp: case_prod_beta text_response_def)
  from l1 l2 1 2 show ?thesis
    by (simp add: case_prod_beta)
qed

text \<open>
  The flag does not follow every response. A first \<^verbatim>\<open>get_mowers\<close> is answered with
  status 429 and a second one with status 302: the flag is still true, although the most
  recent response is not a 429.
\<close>

theorem rate_limit_flag_stale:
  "case get_mowers
          (plain_env (\<lambda>n req. if n = 0 then json_response 429 (PyDict []) else text_response 302 '''')
             (\<lambda>n. 0))
          (snd (get_mowers
                  (plain_env (\<lambda>n req. if n = 0 then json_response 429 (PyDict []) else text_response 302 '''')
                     (\<lambda>n. 0))
                  (client_with [] 10))) of
     (r, self') \<Rightarrow>
       r = Inr False \<and> are_api_limits_reached self' \<and>
       last (trace (io self')) = Sent (make_request GET MOWERS PyNone PyNone) (text_response 302 '''')"
  by code_simp

subsection \<open>Error messages\<close>




subsection \<open>The last error\<close>




subsection \<open>The stored mower list\<close>

text \<open>
  C8. \<^verbatim>\<open>are_all_mowers_off\<close> is true exactly when every mower of the stored list has
  the state \<^verbatim>\<open>'OFF'\<close>; on the empty list it is true.
\<close>

theorem are_all_mowers_off_iff:
  "(are_all_mowers_off self \<longleftrightarrow>
      (\<forall>mower \<in> set (mowers self). dict_get mower ''state'' = PyStr ''OFF'')) \<and>
   are_all_mowers_off (self\<lparr>mowers := []\<rparr>)"
  by (simp add: are_all_mowers_off_def list_all_iff)

theorem are_all_mowers_off_witness:
  "are_all_mowers_off
     (client_with [[(''id'', PyStr ''a''), (''name'', PyStr ''Front''), (''state'', PyStr ''OFF'')],
                   [(''id'', PyStr ''b''), (''name'', PyStr ''Back''), (''state'', PyStr ''OFF'')]] 0) \<and>
   \<not> are_all_mowers_off
     (client_with [[(''id'', PyStr ''a''), (''name'', PyStr ''Front''), (''state'', PyStr ''OFF'')],
                   [(''id'', PyStr ''b''), (''name'', PyStr ''Back'')]] 0) \<and>
   are_all_mowers_off (client_with [] 0)"
  using are_all_mowers_off_iff
    [of "client_with [[(''id'', PyStr ''a''), (''name'', PyStr ''Front''), (''state'', PyStr ''OFF'')],
                      [(''id'', PyStr ''b''), (''name'', PyStr ''Back''), (''state'', PyStr ''OFF'')]] 0"]
    are_all_mowers_off_iff
    [of "client_with [[(''id'', PyStr ''a''), (''name'', PyStr ''Front''), (''state'', PyStr ''OFF'')],
                      [(''id'', PyStr ''b''), (''name'', PyStr ''Back'')]] 0"]
    are_all_mowers_off_iff [of "client_with [] 0"]
  by (simp add: dict_get_def client_with_def)

subsection \<open>The error code table\<close>



subsection \<open>The time of the last mower list\<close>

text \<open>
  C10. \<^verbatim>\<open>get_mowers\<close> writes the time of the last update of the mower list only when
  it returns \<open>True\<close>: when it returns \<open>False\<close> (or raises), the time that
  \<^verbatim>\<open>get_timestamp_last_update_mower_list\<close> returns is the one from before the call.
\<close>

theorem get_mowers_timestamp:
  "case get_mowers E self of
     (r, self') \<Rightarrow>
       r \<noteq> Inr True \<longrightarrow>
       get_timestamp_last_update_mower_list self' = get_timestamp_last_update_mower_list self"
proof -
  obtain rc self1 where c: "check_access_token_and_renew E self = (rc, self1)"
    by (cases "check_access_token_and_renew E self")
  obtain rg self2 where g: "get_mowers_impl E self1 = (rg, self2)"
    by (cases "get_mowers_impl E self1")
  note f1 = check_access_token_and_renew_frame[OF c]
  note f2 = get_mowers_impl_frame[OF g]
  show ?thesis
    using c g f1 f2
    by (auto simp: get_mowers_def get_timestamp_last_update_mower_list_def
          split: sum.splits if_splits prod.splits)
qed

theorem get_mowers_timestamp_witness:
  "case get_mowers (plain_env (\<lambda>n req. RequestError ''unreachable'') (\<lambda>n. 5)) (client_with [] 10) of
     (r, self') \<Rightarrow> r = Inr False \<and> get_timestamp_last_update_mower_list self' = DATETIME_2000"
proof -
  let ?E = "plain_env (\<lambda>n req. RequestError ''unreachable'') (\<lambda>n. 5)"
  have r: "fst (get_mowers ?E (client_with [] 10)) = Inr False"
    by code_simp
  have t: "get_timestamp_last_update_mower_list (client_with [] 10) = DATETIME_2000"
    by (simp add: get_timestamp_last_update_mower_list_def client_with_def)
  from get_mowers_timestamp[where E="?E" and self="client_with [] 10"] r t show ?thesis
    by (simp add: case_prod_beta)
qed

end
